theory Spec2Isabelle
  imports Complex_Main "HOL-Library.Word" "HOL-Library.AList" "HOL-Library.Log_Nat"
begin

section \<open>Strings of the form\<close>

text \<open>
  A JavaScript string is a sequence of 16-bit code units. Literals of the source are all
  ASCII; \<open>str\<close> embeds such a literal, one code unit for each character.
\<close>

type_synonym jschar = "16 word"
type_synonym jsstring = "jschar list"

definition str :: "string \<Rightarrow> jsstring" where
  "str s = map of_char s"

section \<open>Regular expressions of the validators\<close>

text \<open>
  The three patterns of the source are anchored at both ends (\<open>^ ... $\<close>, no flags)
  and are sequences of a literal character, a character class repeated exactly \<open>n\<close>
  times (\<open>\d{4}\<close>) and a character class repeated once or more (\<open>[...]+\<close>).
  \<open>regex_test\<close> is \<open>RegExp.prototype.test\<close> on that fragment: the atoms must
  consume the whole input, and \<open>+\<close> may stop after any number of characters.
\<close>

datatype atom =
    Chr jschar
  | Rep nat "jschar \<Rightarrow> bool"
  | Plus "jschar \<Rightarrow> bool"

fun regex_test :: "atom list \<Rightarrow> jsstring \<Rightarrow> bool" where
  "regex_test [] s = (s = [])"
| "regex_test (Chr a # r) [] = False"
| "regex_test (Chr a # r) (c # s) = (c = a \<and> regex_test r s)"
| "regex_test (Rep 0 p # r) s = regex_test r s"
| "regex_test (Rep (Suc n) p # r) [] = False"
| "regex_test (Rep (Suc n) p # r) (c # s) = (p c \<and> regex_test (Rep n p # r) s)"
| "regex_test (Plus p # r) [] = False"
| "regex_test (Plus p # r) (c # s) = (p c \<and> (regex_test (Plus p # r) s \<or> regex_test r s))"

text \<open>A range \<open>a-z\<close> of a character class compares code units.\<close>

definition in_range :: "char \<Rightarrow> char \<Rightarrow> jschar \<Rightarrow> bool" where
  "in_range lo hi c = (of_char lo \<le> c \<and> c \<le> of_char hi)"

text \<open>\<open>\d\<close> is \<open>[0-9]\<close>.\<close>

definition digit :: "jschar \<Rightarrow> bool" where
  "digit c = in_range CHR ''0'' CHR ''9'' c"

text \<open>
  \<open>\s\<close> is the white space and the line terminators of ECMAScript: tab, line feed,
  vertical tab, form feed, carriage return, space, no-break space, U+1680,
  U+2000 to U+200A, U+2028, U+2029, U+202F, U+205F, U+3000 and U+FEFF.
\<close>

definition whitespace :: "jschar \<Rightarrow> bool" where
  "whitespace c =
     ((0x0009 \<le> c \<and> c \<le> 0x000D) \<or> c = 0x0020 \<or> c = 0x00A0 \<or> c = 0x1680 \<or>
      (0x2000 \<le> c \<and> c \<le> 0x200A) \<or> c = 0x2028 \<or> c = 0x2029 \<or> c = 0x202F \<or>
      c = 0x205F \<or> c = 0x3000 \<or> c = 0xFEFF)"

text \<open>\<open>[a-zA-Z]\<close>\<close>

definition letter :: "jschar \<Rightarrow> bool" where
  "letter c = (in_range CHR ''a'' CHR ''z'' c \<or> in_range CHR ''A'' CHR ''Z'' c)"

text \<open>\<open>/^\d{4}-\d{5}-TG-0$/\<close> (RegistrationForm.js)\<close>

definition studentIdPattern :: "atom list" where
  "studentIdPattern =
     [Rep 4 digit, Chr (of_char CHR ''-''), Rep 5 digit, Chr (of_char CHR ''-''),
      Chr (of_char CHR ''T''), Chr (of_char CHR ''G''), Chr (of_char CHR ''-''),
      Chr (of_char CHR ''0'')]"

text \<open>\<open>/^[a-zA-Z0-9-]+$/\<close> (the other version of the form)\<close>

definition studentNumberPattern_v0 :: "atom list" where
  "studentNumberPattern_v0 =
     [Plus (\<lambda>c. letter c \<or> digit c \<or> c = of_char CHR ''-'')]"

text \<open>\<open>/^[a-zA-Z\s]+$/\<close> (both versions)\<close>

definition namePattern :: "atom list" where
  "namePattern = [Plus (\<lambda>c. letter c \<or> whitespace c)]"

section \<open>Field validation\<close>

text \<open>
  \<open>validateField\<close> of RegistrationForm.js. A string is truthy when it is not empty.
  The result \<open>[]\<close> is the empty error \<open>''\<close>.
\<close>

definition validateField :: "jsstring \<Rightarrow> jsstring \<Rightarrow> jsstring" where
  "validateField name val =
     (let error = [];
          error = (if name = str ''studentNumber'' \<and> val \<noteq> [] then
                     (if \<not> regex_test studentIdPattern val
                      then str ''Student ID must follow format: YYYY-NNNNN-TG-0 (e.g., 2023-00000-TG-0)''
                      else error)
                   else error);
          error = (if (name = str ''lastName'' \<or> name = str ''firstName'') \<and> val \<noteq> [] \<and>
                      \<not> regex_test namePattern val
                   then str ''Name should contain only letters''
                   else error)
      in error)"

text \<open>\<open>validateField\<close> of the other version of the form (src/unnamed/part_000).\<close>

definition validateField_v0 :: "jsstring \<Rightarrow> jsstring \<Rightarrow> jsstring" where
  "validateField_v0 name val =
     (let error = [];
          error = (if name = str ''studentNumber'' \<and> val \<noteq> [] \<and>
                      \<not> regex_test studentNumberPattern_v0 val
                   then str ''Student number should contain only letters, numbers, and hyphens''
                   else error);
          error = (if (name = str ''lastName'' \<or> name = str ''firstName'') \<and> val \<noteq> [] \<and>
                      \<not> regex_test namePattern val
                   then str ''Name should contain only letters''
                   else error)
      in error)"

section \<open>Form state\<close>

text \<open>
  \<open>formData\<close>: the five fields of the form. An update under any other name would add a
  property that no code reads; \<open>set_field\<close> leaves the record as it is then.
\<close>

record form_fields =
  studentNumber :: jsstring
  lastName :: jsstring
  firstName :: jsstring
  program :: jsstring
  yearLevel :: jsstring

text \<open>
  The object built by \<open>generateStaticIdentity\<close>. Its properties \<open>studentNumber\<close>,
  \<open>program\<close>, \<open>yearLevel\<close> and \<open>id\<close> carry a prime here, to keep them apart from the
  fields of the form and from the identity function.
\<close>

record identity =
  studentNumber' :: jsstring
  fullName :: jsstring
  program' :: jsstring
  yearLevel' :: jsstring
  registrationDate :: jsstring
  id' :: jsstring

text \<open>
  The state of the component and the browser's local storage. \<open>fieldErrors\<close> is an
  object whose keys are set one at a time: an association list in insertion order, as
  \<open>Object.values\<close> enumerates it. The canvas and the QR code image are not part of
  the model.
\<close>

record component =
  formData :: form_fields
  isRegistered :: bool
  showModal :: bool
  isProcessing :: bool
  fieldErrors :: "(jsstring \<times> jsstring) list"
  registrationData :: "identity option"
  localStorage :: "jsstring \<rightharpoonup> jsstring"

text \<open>The values of \<open>useState\<close> at the first render, over a given local storage.\<close>

definition initial :: "(jsstring \<rightharpoonup> jsstring) \<Rightarrow> component" where
  "initial store =
     \<lparr>formData = \<lparr>studentNumber = [], lastName = [], firstName = [], program = [],
                   yearLevel = []\<rparr>,
      isRegistered = False, showModal = False, isProcessing = False, fieldErrors = [],
      registrationData = None, localStorage = store\<rparr>"

definition programs :: "jsstring list" where
  "programs =
     [str ''Bachelor of Science in Information Technology'',
      str ''Diploma in Information Technology'']"

definition getYearLevels :: "jsstring \<Rightarrow> jsstring list" where
  "getYearLevels prog =
     (if prog = str ''Bachelor of Science in Information Technology''
      then [str ''1st Year'', str ''2nd Year'', str ''3rd Year'', str ''4th Year'']
      else if prog = str ''Diploma in Information Technology''
      then [str ''1st Year'', str ''2nd Year'', str ''3rd Year'']
      else [])"

section \<open>Progress\<close>

text \<open>
  A JavaScript number is an IEEE 754 double, and \<open>/\<close> and \<open>*\<close> round the exact result
  to the nearest double, ties to even. A finite double is modelled by its value, a
  rational; \<open>fl\<close> rounds a rational to 53 significant bits (the normal range, which the
  progress values never leave).
\<close>

definition round_ties_even :: "rat \<Rightarrow> int" where
  "round_ties_even x =
     (let f = \<lfloor>x\<rfloor>; d = x - of_int f
      in if d < 1 / 2 then f else if 1 / 2 < d then f + 1 else if even f then f else f + 1)"

text \<open>
  The exponent \<open>e\<close> with \<open>2 powi e \<le> x < 2 powi (e + 1)\<close>, for \<open>0 < x\<close>, from
  the bit lengths of the numerator and the denominator.
\<close>

definition binade :: "rat \<Rightarrow> int" where
  "binade x =
     (let (p, q) = quotient_of x;
          k = bitlen p - bitlen q
      in if 2 powi k \<le> x then k else k - 1)"

definition fl :: "rat \<Rightarrow> rat" where
  "fl x =
     (if x = 0 then 0
      else let e = binade \<bar>x\<bar>;
               m = round_ties_even (\<bar>x\<bar> * 2 powi (52 - e))
           in sgn x * of_int m * 2 powi (e - 52))"

text \<open>\<open>calculateProgress\<close> of RegistrationForm.js.\<close>

definition calculateProgress :: "form_fields \<Rightarrow> rat" where
  "calculateProgress fd =
     (let baseFields = [studentNumber fd, lastName fd, firstName fd,
                        program fd];
          baseFilledFields = length (filter (\<lambda>v. v \<noteq> []) baseFields)
      in if program fd \<noteq> [] then
           (let totalFields = 5 :: nat;
                totalFilledFields = (if yearLevel fd \<noteq> []
                                     then baseFilledFields + 1 else baseFilledFields)
            in fl (fl (of_nat totalFilledFields / of_nat totalFields) * 100))
         else fl (fl (of_nat baseFilledFields / of_nat (length baseFields)) * 100))"

text \<open>\<open>calculateProgress\<close> of the other version of the form (src/unnamed/part_000).\<close>

definition calculateProgress_v0 :: "form_fields \<Rightarrow> rat" where
  "calculateProgress_v0 fd =
     (let fields = [studentNumber fd, lastName fd, firstName fd,
                    program fd, yearLevel fd];
          filledFields = length (filter (\<lambda>v. v \<noteq> []) fields)
      in fl (fl (of_nat filledFields / of_nat (length fields)) * 100))"

section \<open>Editing a field\<close>

text \<open>\<open>{...prevData, [name]: value}\<close>\<close>

definition set_field :: "jsstring \<Rightarrow> jsstring \<Rightarrow> form_fields \<Rightarrow> form_fields" where
  "set_field name val fd =
     (if name = str ''studentNumber'' then fd\<lparr>studentNumber := val\<rparr>
      else if name = str ''lastName'' then fd\<lparr>lastName := val\<rparr>
      else if name = str ''firstName'' then fd\<lparr>firstName := val\<rparr>
      else if name = str ''program'' then fd\<lparr>program := val\<rparr>
      else if name = str ''yearLevel'' then fd\<lparr>yearLevel := val\<rparr>
      else fd)"

text \<open>
  \<open>handleInputChange\<close> of RegistrationForm.js, for the event of an input named
  \<open>name\<close> with the new value \<open>val\<close>. The three state updates are functional updates
  and apply in the order they are queued.
\<close>

definition handleInputChange :: "jsstring \<Rightarrow> jsstring \<Rightarrow> component \<Rightarrow> component" where
  "handleInputChange name val st =
     (let error = validateField name val;
          st = st\<lparr>fieldErrors := AList.update name error (fieldErrors st)\<rparr>;
          st = st\<lparr>formData := set_field name val (formData st)\<rparr>;
          st = (if name = str ''program''
                then st\<lparr>formData := (formData st)\<lparr>yearLevel := []\<rparr>\<rparr>
                else st)
      in st)"

text \<open>The same handler in the other version of the form, over its own validator.\<close>

definition handleInputChange_v0 :: "jsstring \<Rightarrow> jsstring \<Rightarrow> component \<Rightarrow> component" where
  "handleInputChange_v0 name val st =
     (let error = validateField_v0 name val;
          st = st\<lparr>fieldErrors := AList.update name error (fieldErrors st)\<rparr>;
          st = st\<lparr>formData := set_field name val (formData st)\<rparr>;
          st = (if name = str ''program''
                then st\<lparr>formData := (formData st)\<lparr>yearLevel := []\<rparr>\<rparr>
                else st)
      in st)"

section \<open>Submission\<close>

text \<open>
  What a submission reads from the browser: the result of
  \<open>new Date().toISOString()\<close>, the result of \<open>Date.now()\<close>, and whether
  \<open>localStorage.setItem\<close> throws (the storage quota is exceeded).
\<close>

record browser =
  toISOString :: jsstring
  Date_now :: int
  setItem_throws :: bool

text \<open>
  The decimal digits of a non-negative integer, and the string of an integral number as
  a template literal prints it (plain decimal below \<open>10^21\<close>, which covers every time
  value).
\<close>

function digits :: "int \<Rightarrow> jsstring" where
  "digits n =
     (if n < 10 then [of_char CHR ''0'' + of_int n]
      else digits (n div 10) @ [of_char CHR ''0'' + of_int (n mod 10)])"
  by pat_completeness auto
termination
  by (relation "measure nat") auto

definition Number_toString :: "int \<Rightarrow> jsstring" where
  "Number_toString n = (if n < 0 then str ''-'' @ digits (- n) else digits n)"

text \<open>\<open>generateStaticIdentity\<close> (the same in both versions).\<close>

definition generateStaticIdentity :: "browser \<Rightarrow> form_fields \<Rightarrow> identity" where
  "generateStaticIdentity env fd =
     (let timestamp = toISOString env
      in \<lparr>studentNumber' = studentNumber fd,
          fullName = firstName fd @ str '' '' @ lastName fd,
          program' = program fd,
          yearLevel' = yearLevel fd,
          registrationDate = timestamp,
          id' = str ''CSCB-'' @ studentNumber fd @ str ''-'' @ Number_toString (Date_now env)\<rparr>)"

text \<open>
  \<open>JSON.stringify\<close> on an identity object, as ECMAScript defines it: the six
  properties in the order of their creation, no white space, each string quoted by
  \<open>QuoteJSONString\<close>. A surrogate pair is copied; a lone surrogate and a control
  character are escaped.
\<close>

definition hex_digit :: "int \<Rightarrow> jschar" where
  "hex_digit d =
     (if d < 10 then of_char CHR ''0'' + of_int d else of_char CHR ''a'' + of_int (d - 10))"

definition UnicodeEscape :: "jschar \<Rightarrow> jsstring" where
  "UnicodeEscape c =
     [0x5C, of_char CHR ''u'', hex_digit (uint c div 4096 mod 16),
      hex_digit (uint c div 256 mod 16), hex_digit (uint c div 16 mod 16),
      hex_digit (uint c mod 16)]"

definition quote_code_unit :: "jschar \<Rightarrow> jsstring" where
  "quote_code_unit c =
     (if c = 0x08 then [0x5C, of_char CHR ''b'']
      else if c = 0x09 then [0x5C, of_char CHR ''t'']
      else if c = 0x0A then [0x5C, of_char CHR ''n'']
      else if c = 0x0C then [0x5C, of_char CHR ''f'']
      else if c = 0x0D then [0x5C, of_char CHR ''r'']
      else if c = 0x22 then [0x5C, 0x22]
      else if c = 0x5C then [0x5C, 0x5C]
      else if c < 0x20 \<or> (0xD800 \<le> c \<and> c \<le> 0xDFFF) then UnicodeEscape c
      else [c])"

fun quote_code_units :: "jsstring \<Rightarrow> jsstring" where
  "quote_code_units [] = []"
| "quote_code_units [c] = quote_code_unit c"
| "quote_code_units (c # d # s) =
     (if (0xD800 \<le> c \<and> c \<le> 0xDBFF) \<and> (0xDC00 \<le> d \<and> d \<le> 0xDFFF)
      then c # d # quote_code_units s
      else quote_code_unit c @ quote_code_units (d # s))"

definition QuoteJSONString :: "jsstring \<Rightarrow> jsstring" where
  "QuoteJSONString v = [0x22] @ quote_code_units v @ [0x22]"

definition JSON_stringify :: "identity \<Rightarrow> jsstring" where
  "JSON_stringify i =
     str ''{'' @ QuoteJSONString (str ''studentNumber'') @ str '':'' @
       QuoteJSONString (studentNumber' i) @
     str '','' @ QuoteJSONString (str ''fullName'') @ str '':'' @
       QuoteJSONString (fullName i) @
     str '','' @ QuoteJSONString (str ''program'') @ str '':'' @
       QuoteJSONString (program' i) @
     str '','' @ QuoteJSONString (str ''yearLevel'') @ str '':'' @
       QuoteJSONString (yearLevel' i) @
     str '','' @ QuoteJSONString (str ''registrationDate'') @ str '':'' @
       QuoteJSONString (registrationDate i) @
     str '','' @ QuoteJSONString (str ''id'') @ str '':'' @ QuoteJSONString (id' i) @
     str ''}''"

text \<open>
  \<open>handleSubmit\<close> (the same in both versions), returning the message of the alert it
  raises, if any, and the state once it has settled. It reads \<open>formData\<close> as of the
  call. The two early returns leave every state untouched; an exception of
  \<open>setItem\<close> is caught, and \<open>finally\<close> clears \<open>isProcessing\<close> on both paths.
\<close>

definition handleSubmit :: "browser \<Rightarrow> component \<Rightarrow> jsstring option \<times> component" where
  "handleSubmit env st =
     (let fd = formData st in
      if studentNumber fd = [] \<or> lastName fd = [] \<or> firstName fd = [] \<or>
         program fd = [] \<or> yearLevel fd = []
      then (Some (str ''Please fill in all fields''), st)
      else
        (let hasErrors = list_ex (\<lambda>error. error \<noteq> []) (map snd (fieldErrors st)) in
         if hasErrors then (Some (str ''Please fix the errors before submitting''), st)
         else
           (let ident = generateStaticIdentity env fd in
            if setItem_throws env
            then (Some (str ''Registration failed. Please try again.''),
                  st\<lparr>isProcessing := False\<rparr>)
            else (None,
                  st\<lparr>localStorage :=
                       (localStorage st)
                         (str ''student_'' @ studentNumber fd \<mapsto>
                            JSON_stringify ident),
                     registrationData := Some ident,
                     isRegistered := True,
                     showModal := True,
                     isProcessing := False\<rparr>))))"

text \<open>A sequence of input events, each handled in turn.\<close>

fun changes :: "(jsstring \<times> jsstring) list \<Rightarrow> component \<Rightarrow> component" where
  "changes [] st = st"
| "changes ((name, val) # es) st = changes es (handleInputChange name val st)"

fun changes_v0 :: "(jsstring \<times> jsstring) list \<Rightarrow> component \<Rightarrow> component" where
  "changes_v0 [] st = st"
| "changes_v0 ((name, val) # es) st = changes_v0 es (handleInputChange_v0 name val st)"

section \<open>The specification's notions\<close>

text \<open>
  The fixed format of the specification: four digits, a hyphen, five digits, a hyphen,
  the literal \<open>TG\<close>, a hyphen and the digit \<open>0\<close>.
\<close>

definition strict_format :: "jsstring \<Rightarrow> bool" where
  "strict_format v =
     (length v = 15 \<and> list_all digit (take 4 v) \<and> take 1 (drop 4 v) = str ''-'' \<and>
      list_all digit (take 5 (drop 5 v)) \<and> drop 10 v = str ''-TG-0'')"

text \<open>
  A well-formed input of the specification: a student number in the canonical pattern,
  letter-only names, a valid program and a year level of that program's list.
\<close>

definition well_formed :: "form_fields \<Rightarrow> bool" where
  "well_formed fd =
     (regex_test studentIdPattern (studentNumber fd) \<and>
      firstName fd \<noteq> [] \<and> list_all letter (firstName fd) \<and>
      lastName fd \<noteq> [] \<and> list_all letter (lastName fd) \<and>
      program fd \<in> set programs \<and> yearLevel fd \<in> set (getYearLevels (program fd)))"

text \<open>
  The number of non-empty fields among student number, last name, first name and
  program.
\<close>

definition baseFilled :: "form_fields \<Rightarrow> nat" where
  "baseFilled fd =
     (if studentNumber fd \<noteq> [] then 1 else 0) + (if lastName fd \<noteq> [] then 1 else 0) +
     (if firstName fd \<noteq> [] then 1 else 0) + (if program fd \<noteq> [] then 1 else 0)"

text \<open>
  The example of the specification: the five values typed into an empty form, the program
  before the year level.
\<close>

definition example_edits :: "(jsstring \<times> jsstring) list" where
  "example_edits =
     [(str ''studentNumber'', str ''2023-00011-TG-0''),
      (str ''firstName'', str ''Ana''),
      (str ''lastName'', str ''Cruz''),
      (str ''program'', str ''Diploma in Information Technology''),
      (str ''yearLevel'', str ''2nd Year'')]"

definition example_browser :: browser where
  "example_browser =
     \<lparr>toISOString = str ''2023-09-01T08:00:00.000Z'', Date_now = 1693555200000,
      setItem_throws = False\<rparr>"

section \<open>Facts about strings and patterns\<close>

lemma of_char_nat_less: "(of_char c :: nat) < 256"
proof -
  have "(of_char c :: nat) mod 256 = of_char c" by simp
  then show ?thesis by (metis mod_less_divisor zero_less_numeral)
qed

lemma unat_of_char_jschar: "unat (of_char c :: jschar) = of_char c"
proof -
  have "(of_char c :: jschar) = of_nat (of_char c)" by (simp add: of_nat_of_char)
  then have "unat (of_char c :: jschar) = (of_char c :: nat) mod 2 ^ 16"
    by (simp add: unat_of_nat)
  moreover have "(of_char c :: nat) mod 2 ^ 16 = of_char c"
    by (rule mod_less, rule less_trans [OF of_char_nat_less]) simp
  ultimately show ?thesis by simp
qed

lemma str_inject [simp]: "str a = str b \<longleftrightarrow> a = b"
proof -
  have "inj (of_char :: char \<Rightarrow> jschar)"
  proof (rule injI)
    fix x y :: char
    assume "(of_char x :: jschar) = of_char y"
    then have "unat (of_char x :: jschar) = unat (of_char y :: jschar)" by simp
    then have "(of_char x :: nat) = of_char y" by (simp add: unat_of_char_jschar)
    then show "x = y" using inj_of_char by (metis injD)
  qed
  then show ?thesis by (simp add: str_def inj_map_eq_map)
qed


lemma str_Nil [simp]: "str s = [] \<longleftrightarrow> s = []"
  by (simp add: str_def)

lemma regex_test_Plus: "regex_test [Plus p] s \<longleftrightarrow> s \<noteq> [] \<and> list_all p s"
  by (induction s) auto

lemma regex_test_Chr:
  "regex_test (Chr a # r) s \<longleftrightarrow> (\<exists>t. s = a # t \<and> regex_test r t)"
  by (cases s) auto

lemma regex_test_Rep:
  "regex_test (Rep n p # r) s \<longleftrightarrow>
     (\<exists>u t. s = u @ t \<and> length u = n \<and> list_all p u \<and> regex_test r t)"
proof (induction n arbitrary: s)
  case 0
  show ?case by simp
next
  case (Suc n)
  show ?case
  proof (cases s)
    case Nil
    then show ?thesis by simp
  next
    case (Cons c s')
    show ?thesis
    proof
      assume "regex_test (Rep (Suc n) p # r) s"
      then obtain u t where "p c" "s' = u @ t" "length u = n" "list_all p u" "regex_test r t"
        using Cons Suc.IH [of s'] by auto
      then have "s = (c # u) @ t \<and> length (c # u) = Suc n \<and> list_all p (c # u) \<and> regex_test r t"
        using Cons by simp
      then show "\<exists>u t. s = u @ t \<and> length u = Suc n \<and> list_all p u \<and> regex_test r t"
        by blast
    next
      assume "\<exists>u t. s = u @ t \<and> length u = Suc n \<and> list_all p u \<and> regex_test r t"
      then obtain u t where ut: "s = u @ t" "length u = Suc n" "list_all p u" "regex_test r t"
        by blast
      then obtain d u' where u: "u = d # u'" by (cases u) auto
      then have "c = d" "s' = u' @ t" "length u' = n" "list_all p u'" "p d"
        using ut Cons by auto
      then show "regex_test (Rep (Suc n) p # r) s"
        using Cons ut(4) Suc.IH [of s'] by auto
    qed
  qed
qed

lemma studentIdPattern_iff:
  "regex_test studentIdPattern v \<longleftrightarrow>
     (\<exists>y n. v = y @ str ''-'' @ n @ str ''-TG-0'' \<and> length y = 4 \<and> list_all digit y \<and>
            length n = 5 \<and> list_all digit n)"
  by (auto simp: studentIdPattern_def regex_test_Rep regex_test_Chr str_def)

lemma strict_format_iff:
  "strict_format v \<longleftrightarrow>
     (\<exists>y n. v = y @ str ''-'' @ n @ str ''-TG-0'' \<and> length y = 4 \<and> list_all digit y \<and>
            length n = 5 \<and> list_all digit n)"
proof
  assume a: "strict_format v"
  have e1: "take 1 (drop 4 v) @ drop 5 v = drop 4 v"
    using append_take_drop_id [of 1 "drop 4 v"] by simp
  have e2: "take 5 (drop 5 v) @ drop 10 v = drop 5 v"
    using append_take_drop_id [of 5 "drop 5 v"] by simp
  have "take 4 v @ (take 1 (drop 4 v) @ (take 5 (drop 5 v) @ drop 10 v)) = v"
    by (simp only: e2 e1 append_take_drop_id)
  then have "v = take 4 v @ str ''-'' @ take 5 (drop 5 v) @ str ''-TG-0''"
    using a by (simp add: strict_format_def)
  moreover have "length (take 4 v) = 4" "length (take 5 (drop 5 v)) = 5"
    using a by (simp_all add: strict_format_def)
  ultimately show "\<exists>y n. v = y @ str ''-'' @ n @ str ''-TG-0'' \<and> length y = 4 \<and> list_all digit y \<and>
            length n = 5 \<and> list_all digit n"
    using a unfolding strict_format_def by blast
next
  assume "\<exists>y n. v = y @ str ''-'' @ n @ str ''-TG-0'' \<and> length y = 4 \<and> list_all digit y \<and>
            length n = 5 \<and> list_all digit n"
  then show "strict_format v"
    by (auto simp: strict_format_def str_def)
qed


lemma studentIdPattern_strict: "regex_test studentIdPattern v \<longleftrightarrow> strict_format v"
  by (simp only: studentIdPattern_iff strict_format_iff)

section \<open>Facts about rounding\<close>

lemma binade_bounds:
  assumes "0 < x"
  shows "2 powi binade x \<le> x \<and> x < 2 powi (binade x + 1)"
proof -
  obtain p q where pq: "quotient_of x = (p, q)" by (cases "quotient_of x")
  have q: "0 < q" using pq by (rule quotient_of_denom_pos)
  have x: "x = of_int p / of_int q" using pq by (rule quotient_of_div)
  have p: "0 < p" using assms q x by (simp add: zero_less_divide_iff)
  define fp where "fp = floorlog 2 (nat p)"
  define fq where "fq = floorlog 2 (nat q)"
  define k where "k = int fp - int fq"
  have bp: "2 ^ (fp - 1) \<le> nat p \<and> nat p < 2 ^ fp"
    unfolding fp_def using floorlog_bounds [of "nat p" 2] p by simp
  have bq: "2 ^ (fq - 1) \<le> nat q \<and> nat q < 2 ^ fq"
    unfolding fq_def using floorlog_bounds [of "nat q" 2] q by simp
  have fp1: "1 \<le> fp" unfolding fp_def using p by (simp add: floorlog_def)
  have fq1: "1 \<le> fq" unfolding fq_def using q by (simp add: floorlog_def)
  have rp: "(2::rat) ^ (fp - 1) \<le> of_int p \<and> (of_int p :: rat) < 2 ^ fp"
  proof -
    have "rat_of_nat (2 ^ (fp - 1)) \<le> of_nat (nat p) \<and> rat_of_nat (nat p) < of_nat (2 ^ fp)"
      using bp by (simp only: of_nat_le_iff of_nat_less_iff)
    then show ?thesis using p by simp
  qed
  have rq: "(2::rat) ^ (fq - 1) \<le> of_int q \<and> (of_int q :: rat) < 2 ^ fq"
  proof -
    have "rat_of_nat (2 ^ (fq - 1)) \<le> of_nat (nat q) \<and> rat_of_nat (nat q) < of_nat (2 ^ fq)"
      using bq by (simp only: of_nat_le_iff of_nat_less_iff)
    then show ?thesis using q by simp
  qed
  have qpos: "(0::rat) < of_int q" using q by simp
  have up: "x < 2 powi (k + 1)"
  proof -
    have "(2::rat) powi (k + 1) = 2 ^ fp / 2 ^ (fq - 1)"
    proof -
      have "k + 1 = int fp - int (fq - 1)" using fq1 by (simp add: k_def)
      then show ?thesis by (simp add: power_int_diff)
    qed
    moreover have "of_int p / of_int q < (2::rat) ^ fp / 2 ^ (fq - 1)"
    proof -
      have "of_int p * (2::rat) ^ (fq - 1) < 2 ^ fp * of_int q"
        using rp rq p by (intro mult_less_le_imp_less) auto
      then show ?thesis using qpos by (simp add: field_simps)
    qed
    ultimately show ?thesis by (simp add: x)
  qed
  have lo: "2 powi (k - 1) < x"
  proof -
    have "(2::rat) powi (k - 1) = 2 ^ (fp - 1) / 2 ^ fq"
    proof -
      have "k - 1 = int (fp - 1) - int fq" using fp1 by (simp add: k_def)
      then show ?thesis by (simp add: power_int_diff)
    qed
    moreover have "(2::rat) ^ (fp - 1) / 2 ^ fq < of_int p / of_int q"
    proof -
      have "(2::rat) ^ (fp - 1) * of_int q < of_int p * 2 ^ fq"
        using rp rq qpos by (intro mult_le_less_imp_less) auto
      then show ?thesis using qpos by (simp add: field_simps)
    qed
    ultimately show ?thesis by (simp add: x)
  qed
  have b: "binade x = (if 2 powi k \<le> x then k else k - 1)"
    by (simp add: binade_def pq k_def fp_def fq_def bitlen_def Let_def)
  show ?thesis
  proof (cases "2 powi k \<le> x")
    case True
    then show ?thesis using up by (simp add: b)
  next
    case False
    then show ?thesis using lo by (simp add: b)
  qed
qed

lemma binade_unique:
  assumes "0 < (x::rat)" "2 powi e \<le> x" "x < 2 powi (e + 1)" "2 powi b \<le> x" "x < 2 powi (b + 1)"
  shows "b = (e::int)"
proof -
  have lt: "i < j" if "(2::rat) powi i < 2 powi j" for i j :: int
  proof (rule ccontr)
    assume "\<not> i < j"
    then have "(2::rat) powi j \<le> 2 powi i" by (intro power_int_increasing) auto
    with that show False by simp
  qed
  have "(2::rat) powi e < 2 powi (b + 1)" using assms(2,5) by (rule le_less_trans)
  then have "e < b + 1" by (rule lt)
  moreover have "(2::rat) powi b < 2 powi (e + 1)" using assms(4,3) by (rule le_less_trans)
  then have "b < e + 1" by (rule lt)
  ultimately show ?thesis by simp
qed

lemma round_ties_even_near:
  assumes "\<bar>x - of_int m\<bar> < 1 / 2"
  shows "round_ties_even x = m"
proof (cases "of_int m \<le> x")
  case True
  then have f: "\<lfloor>x\<rfloor> = m" using assms by (intro floor_unique) auto
  show ?thesis using assms True by (simp add: round_ties_even_def f)
next
  case False
  then have f: "\<lfloor>x\<rfloor> = m - 1" using assms by (intro floor_unique) auto
  show ?thesis using assms False by (simp add: round_ties_even_def f)
qed

text \<open>
  How a rounding is computed by hand: give the exponent and the 53-bit significand, and
  check that the scaled value lies within half a unit of it.
\<close>

lemma fl_eqI:
  assumes "0 < x" "2 powi e \<le> x" "x < 2 powi (e + 1)"
    and "\<bar>x * 2 powi (52 - e) - of_int m\<bar> < 1 / 2"
  shows "fl x = of_int m * 2 powi (e - 52)"
proof -
  have "binade x = e"
    using binade_bounds [OF assms(1)] assms(1-3) by (intro binade_unique [of x]) auto
  moreover have "round_ties_even (x * 2 powi (52 - e)) = m"
    using assms(4) by (rule round_ties_even_near)
  ultimately show ?thesis using assms(1) by (simp add: fl_def Let_def)
qed

text \<open>The quotients and products that the two progress computations can meet.\<close>

lemma progress_1_4: "fl (fl (1 / 4) * 100) = 25"
proof -
  have a: "fl (1 / 4) = 1 / 4"
    using fl_eqI [of "1 / 4" "-2" 4503599627370496] by simp
  have b: "fl (1 / 4 * 100) = 25"
    using fl_eqI [of "1 / 4 * 100" "4" 7036874417766400] by simp
  show ?thesis by (simp only: a b)
qed

lemma progress_2_4: "fl (fl (2 / 4) * 100) = 50"
proof -
  have a: "fl (2 / 4) = 1 / 2"
    using fl_eqI [of "2 / 4" "-1" 4503599627370496] by simp
  have b: "fl (1 / 2 * 100) = 50"
    using fl_eqI [of "1 / 2 * 100" "5" 7036874417766400] by simp
  show ?thesis by (simp only: a b)
qed

lemma progress_3_4: "fl (fl (3 / 4) * 100) = 75"
proof -
  have a: "fl (3 / 4) = 3 / 4"
    using fl_eqI [of "3 / 4" "-1" 6755399441055744] by simp
  have b: "fl (3 / 4 * 100) = 75"
    using fl_eqI [of "3 / 4 * 100" "6" 5277655813324800] by simp
  show ?thesis by (simp only: a b)
qed

lemma progress_4_4: "fl (fl (4 / 4) * 100) = 100"
proof -
  have a: "fl (4 / 4) = 1"
    using fl_eqI [of "4 / 4" "0" 4503599627370496] by simp
  have b: "fl (1 * 100) = 100"
    using fl_eqI [of "1 * 100" "6" 7036874417766400] by simp
  show ?thesis by (simp only: a b)
qed

lemma progress_1_5: "fl (fl (1 / 5) * 100) = 20"
proof -
  have a: "fl (1 / 5) = 3602879701896397 / 18014398509481984"
    using fl_eqI [of "1 / 5" "-3" 7205759403792794] by simp
  have b: "fl (3602879701896397 / 18014398509481984 * 100) = 20"
    using fl_eqI [of "3602879701896397 / 18014398509481984 * 100" "4" 5629499534213120] by simp
  show ?thesis by (simp only: a b)
qed

lemma progress_2_5: "fl (fl (2 / 5) * 100) = 40"
proof -
  have a: "fl (2 / 5) = 3602879701896397 / 9007199254740992"
    using fl_eqI [of "2 / 5" "-2" 7205759403792794] by simp
  have b: "fl (3602879701896397 / 9007199254740992 * 100) = 40"
    using fl_eqI [of "3602879701896397 / 9007199254740992 * 100" "5" 5629499534213120] by simp
  show ?thesis by (simp only: a b)
qed

lemma progress_3_5: "fl (fl (3 / 5) * 100) = 60"
proof -
  have a: "fl (3 / 5) = 5404319552844595 / 9007199254740992"
    using fl_eqI [of "3 / 5" "-1" 5404319552844595] by simp
  have b: "fl (5404319552844595 / 9007199254740992 * 100) = 60"
    using fl_eqI [of "5404319552844595 / 9007199254740992 * 100" "5" 8444249301319680] by simp
  show ?thesis by (simp only: a b)
qed

lemma progress_4_5: "fl (fl (4 / 5) * 100) = 80"
proof -
  have a: "fl (4 / 5) = 3602879701896397 / 4503599627370496"
    using fl_eqI [of "4 / 5" "-1" 7205759403792794] by simp
  have b: "fl (3602879701896397 / 4503599627370496 * 100) = 80"
    using fl_eqI [of "3602879701896397 / 4503599627370496 * 100" "6" 5629499534213120] by simp
  show ?thesis by (simp only: a b)
qed

lemma progress_5_5: "fl (fl (5 / 5) * 100) = 100"
proof -
  have a: "fl (5 / 5) = 1"
    using fl_eqI [of "5 / 5" "0" 4503599627370496] by simp
  have b: "fl (1 * 100) = 100"
    using fl_eqI [of "1 * 100" "6" 7036874417766400] by simp
  show ?thesis by (simp only: a b)
qed

lemma progress_quarters:
  assumes "n \<le> 4"
  shows "fl (fl (of_nat n / 4) * 100) = 25 * of_nat n"
proof -
  from assms consider "n = 0" | "n = 1" | "n = 2" | "n = 3" | "n = 4" by linarith
  then show ?thesis
  proof cases
    case 1 then show ?thesis by (simp add: fl_def)
  next
    case 2 show ?thesis unfolding 2 of_nat_1 progress_1_4 by simp
  next
    case 3 show ?thesis unfolding 3 of_nat_numeral progress_2_4 by simp
  next
    case 4 show ?thesis unfolding 4 of_nat_numeral progress_3_4 by simp
  next
    case 5 show ?thesis unfolding 5 of_nat_numeral progress_4_4 by simp
  qed
qed

lemma progress_fifths:
  assumes "n \<le> 5"
  shows "fl (fl (of_nat n / 5) * 100) = 20 * of_nat n"
proof -
  from assms consider "n = 0" | "n = 1" | "n = 2" | "n = 3" | "n = 4" | "n = 5" by linarith
  then show ?thesis
  proof cases
    case 1 then show ?thesis by (simp add: fl_def)
  next
    case 2 show ?thesis unfolding 2 of_nat_1 progress_1_5 by simp
  next
    case 3 show ?thesis unfolding 3 of_nat_numeral progress_2_5 by simp
  next
    case 4 show ?thesis unfolding 4 of_nat_numeral progress_3_5 by simp
  next
    case 5 show ?thesis unfolding 5 of_nat_numeral progress_4_5 by simp
  next
    case 6 show ?thesis unfolding 6 of_nat_numeral progress_5_5 by simp
  qed
qed

section \<open>Facts about the handlers\<close>

lemma generateStaticIdentity_fullName:
  "fullName (generateStaticIdentity env fd) = firstName fd @ str '' '' @ lastName fd"
  by (simp add: generateStaticIdentity_def)

lemma filter_update_other:
  "filter (\<lambda>p. fst p \<noteq> k) (AList.update k v al) = filter (\<lambda>p. fst p \<noteq> k) al"
  by (induction al) auto

lemma example_formData:
  "formData (changes example_edits (initial store)) =
     \<lparr>studentNumber = str ''2023-00011-TG-0'', lastName = str ''Cruz'', firstName = str ''Ana'',
      program = str ''Diploma in Information Technology'', yearLevel = str ''2nd Year''\<rparr>"
  by (simp add: example_edits_def initial_def handleInputChange_def set_field_def Let_def)

lemma letters_Ana_Cruz: "list_all letter (str ''Ana'') \<and> list_all letter (str ''Cruz'')"
  by (simp add: str_def letter_def in_range_def)

lemma example_studentNumber_matches: "regex_test studentIdPattern (str ''2023-00011-TG-0'')"
  by (simp add: studentIdPattern_strict strict_format_def str_def digit_def in_range_def)

lemma example_well_formed: "well_formed (formData (changes example_edits (initial store)))"
  unfolding example_formData
  by (simp add: well_formed_def example_studentNumber_matches letters_Ana_Cruz programs_def
      getYearLevels_def)

lemma abc_rejected: "\<not> regex_test studentIdPattern (str ''abc'')"
  by (simp add: studentIdPattern_strict strict_format_def str_def)

lemma abc_accepted_v0: "regex_test studentNumberPattern_v0 (str ''abc'')"
  by (simp add: studentNumberPattern_v0_def regex_test_Plus str_def letter_def in_range_def)

lemma validateField_name:
  assumes "name = str ''firstName'' \<or> name = str ''lastName''"
  shows "validateField name v = [] \<longleftrightarrow> v = [] \<or> list_all (\<lambda>c. letter c \<or> whitespace c) v"
    and "validateField_v0 name v = [] \<longleftrightarrow> v = [] \<or> list_all (\<lambda>c. letter c \<or> whitespace c) v"
  using assms
  by (auto simp: validateField_def validateField_v0_def namePattern_def regex_test_Plus)

lemma no_errors_after_update:
  assumes "distinct (map fst al)" "list_all (\<lambda>(k, e). k = name \<or> e = []) al"
  shows "\<not> list_ex (\<lambda>e. e \<noteq> []) (map snd (AList.update name [] al))"
  using assms
proof (induction al)
  case Nil
  then show ?case by simp
next
  case (Cons p al)
  obtain k e where p: "p = (k, e)" by (cases p)
  show ?case
  proof (cases "k = name")
    case True
    then have "name \<notin> fst ` set al" using Cons.prems(1) p by simp
    have "snd x = []" if "x \<in> set al" for x
    proof -
      obtain k' e' where x: "x = (k', e')" by (cases x)
      have "k' \<noteq> name" using that \<open>name \<notin> fst ` set al\<close> x by force
      moreover have "k' = name \<or> e' = []"
        using Cons.prems(2) that x by (auto simp: list_all_iff)
      ultimately show ?thesis using x by simp
    qed
    then have "\<forall>x \<in> set al. snd x = []" by blast
    then show ?thesis using True p by (simp add: list_ex_iff)
  next
    case False
    then show ?thesis using Cons p by simp
  qed
qed

lemma set_field_name:
  assumes "name = str ''firstName'' \<or> name = str ''lastName''"
  shows "studentNumber (set_field name w fd) = studentNumber fd"
    and "program (set_field name w fd) = program fd"
    and "yearLevel (set_field name w fd) = yearLevel fd"
    and "firstName (set_field name w fd) = (if name = str ''firstName'' then w else firstName fd)"
    and "lastName (set_field name w fd) = (if name = str ''lastName'' then w else lastName fd)"
  using assms by (auto simp: set_field_def)

lemma changes_keep_studentNumber:
  assumes "list_all (\<lambda>(n, v). n \<noteq> str ''studentNumber'') es"
    and "studentNumber (formData st) = x"
    and "map_of (fieldErrors st) (str ''studentNumber'') = Some e"
  shows "studentNumber (formData (changes es st)) = x \<and>
         map_of (fieldErrors (changes es st)) (str ''studentNumber'') = Some e"
  using assms
proof (induction es arbitrary: st)
  case Nil
  then show ?case by simp
next
  case (Cons p es)
  obtain n v where p: "p = (n, v)" by (cases p)
  have n: "n \<noteq> str ''studentNumber''" using Cons.prems(1) p by simp
  have "studentNumber (formData (handleInputChange n v st)) = x"
    using n Cons.prems(2) by (simp add: handleInputChange_def set_field_def Let_def)
  moreover have "map_of (fieldErrors (handleInputChange n v st)) (str ''studentNumber'') = Some e"
    using n Cons.prems(3) by (simp add: handleInputChange_def Let_def update_conv')
  moreover have "list_all (\<lambda>(n, v). n \<noteq> str ''studentNumber'') es"
    using Cons.prems(1) by simp
  ultimately show ?case using Cons.IH [of "handleInputChange n v st"] p by simp
qed

lemma validateField_studentNumber:
  "validateField (str ''studentNumber'') v = [] \<longleftrightarrow> v = [] \<or> strict_format v"
  by (simp add: validateField_def studentIdPattern_strict)

lemma example_names_match:
  "regex_test namePattern (str ''Ana'') \<and> regex_test namePattern (str ''Cruz'')"
  using letters_Ana_Cruz by (simp add: namePattern_def regex_test_Plus list_all_iff)

lemma example_fieldErrors:
  "fieldErrors (changes example_edits (initial store)) =
     [(str ''studentNumber'', []), (str ''firstName'', []), (str ''lastName'', []),
      (str ''program'', []), (str ''yearLevel'', [])]"
  by (simp add: example_edits_def initial_def handleInputChange_def validateField_def
      example_studentNumber_matches example_names_match Let_def)

lemma example_localStorage: "localStorage (changes example_edits (initial store)) = store"
  by (simp add: example_edits_def initial_def handleInputChange_def Let_def)

lemma validateField_v0_other:
  "name \<noteq> str ''studentNumber'' \<Longrightarrow> validateField_v0 name v = validateField name v"
  by (simp add: validateField_def validateField_v0_def)

lemma handleInputChange_v0_eq:
  "validateField_v0 name v = validateField name v \<Longrightarrow>
   handleInputChange_v0 name v st = handleInputChange name v st"
  by (simp add: handleInputChange_def handleInputChange_v0_def)

lemma example_studentNumber_v0:
  "validateField_v0 (str ''studentNumber'') (str ''2023-00011-TG-0'') =
   validateField (str ''studentNumber'') (str ''2023-00011-TG-0'')"
proof -
  have "regex_test studentNumberPattern_v0 (str ''2023-00011-TG-0'')"
    by (simp add: studentNumberPattern_v0_def regex_test_Plus str_def letter_def digit_def
        in_range_def)
  then show ?thesis
    by (simp add: validateField_def validateField_v0_def example_studentNumber_matches)
qed

lemma example_changes_v0:
  "changes_v0 example_edits (initial store) = changes example_edits (initial store)"
  by (simp add: example_edits_def handleInputChange_v0_eq example_studentNumber_v0
      validateField_v0_other)

section \<open>Facts about the progress\<close>

lemma baseFilled_le: "baseFilled fd \<le> 4"
  by (simp add: baseFilled_def)

lemma calculateProgress_exact:
  "calculateProgress fd =
     (if program fd \<noteq> []
      then 20 * of_nat (baseFilled fd + (if yearLevel fd \<noteq> [] then 1 else 0))
      else 25 * of_nat (baseFilled fd))"
proof -
  have n: "length (filter (\<lambda>v. v \<noteq> [])
      [studentNumber fd, lastName fd, firstName fd, program fd]) = baseFilled fd"
    by (simp add: baseFilled_def)
  have d4: "(of_nat (length [studentNumber fd, lastName fd, firstName fd, program fd]) :: rat) = 4"
    by simp
  have q: "fl (fl (of_nat (baseFilled fd) / 4) * 100) = 25 * of_nat (baseFilled fd)"
    using baseFilled_le by (rule progress_quarters)
  have f: "fl (fl (of_nat (baseFilled fd + k) / 5) * 100) = 20 * of_nat (baseFilled fd + k)"
    if "k \<le> 1" for k
    using baseFilled_le [of fd] that by (intro progress_fifths) simp
  show ?thesis
  proof (cases "program fd = []")
    case True
    then show ?thesis unfolding calculateProgress_def Let_def n d4 using q by simp
  next
    case False
    show ?thesis
    proof (cases "yearLevel fd = []")
      case True
      then show ?thesis
        unfolding calculateProgress_def Let_def n using False f [of 0] by simp
    next
      case y: False
      then show ?thesis
        unfolding calculateProgress_def Let_def n using False f [of 1] by simp
    qed
  qed
qed

lemma calculateProgress_v0_exact:
  "calculateProgress_v0 fd = 20 * of_nat (baseFilled fd + (if yearLevel fd \<noteq> [] then 1 else 0))"
proof -
  have n: "length (filter (\<lambda>v. v \<noteq> [])
      [studentNumber fd, lastName fd, firstName fd, program fd, yearLevel fd]) =
      baseFilled fd + (if yearLevel fd \<noteq> [] then 1 else 0)"
    by (simp add: baseFilled_def)
  have "baseFilled fd + (if yearLevel fd \<noteq> [] then 1 else 0) \<le> 5"
    using baseFilled_le [of fd] by simp
  then have "fl (fl (of_nat (baseFilled fd + (if yearLevel fd \<noteq> [] then 1 else 0)) / 5) * 100) =
      20 * of_nat (baseFilled fd + (if yearLevel fd \<noteq> [] then 1 else 0))"
    by (rule progress_fifths)
  moreover have "(of_nat (length [studentNumber fd, lastName fd, firstName fd, program fd,
      yearLevel fd]) :: rat) = 5"
    by simp
  ultimately show ?thesis
    unfolding calculateProgress_v0_def Let_def n by (simp only:)
qed

section \<open>The claims\<close>

text \<open>
  C1. A submission with one of the five fields empty, or with a non-empty message among
  the entries of \<open>fieldErrors\<close>, is blocked: \<open>handleSubmit\<close> raises an alert and returns
  before anything is built or stored, so the whole state, local storage and
  \<open>registrationData\<close> included, is as it was. \<open>handleSubmit\<close> is the same in both
  versions of the form.
\<close>

theorem handleSubmit_blocks:
  assumes "studentNumber (formData st) = [] \<or> lastName (formData st) = [] \<or>
           firstName (formData st) = [] \<or> program (formData st) = [] \<or>
           yearLevel (formData st) = [] \<or>
           list_ex (\<lambda>e. e \<noteq> []) (map snd (fieldErrors st))"
  shows "snd (handleSubmit env st) = st \<and>
         localStorage (snd (handleSubmit env st)) = localStorage st \<and>
         registrationData (snd (handleSubmit env st)) = registrationData st \<and>
         fst (handleSubmit env st) =
           Some (if studentNumber (formData st) = [] \<or> lastName (formData st) = [] \<or>
                    firstName (formData st) = [] \<or> program (formData st) = [] \<or>
                    yearLevel (formData st) = []
                 then str ''Please fill in all fields''
                 else str ''Please fix the errors before submitting'')"
  using assms by (auto simp: handleSubmit_def Let_def)

text \<open>
  The specification's scenario: the example form with the year level still empty after
  the program was chosen.
\<close>

theorem handleSubmit_blocks_witness:
  "yearLevel (formData (changes (butlast example_edits) (initial Map.empty))) = [] \<and>
   snd (handleSubmit example_browser (changes (butlast example_edits) (initial Map.empty))) =
     changes (butlast example_edits) (initial Map.empty) \<and>
   fst (handleSubmit example_browser (changes (butlast example_edits) (initial Map.empty))) =
     Some (str ''Please fill in all fields'')"
proof -
  have y: "yearLevel (formData (changes (butlast example_edits) (initial Map.empty))) = []"
    by (simp add: example_edits_def initial_def handleInputChange_def set_field_def Let_def)
  show ?thesis
    using handleSubmit_blocks [of "changes (butlast example_edits) (initial Map.empty)"
        example_browser] y
    by simp
qed

text \<open>
  C2. For a well-formed form (student number in the canonical pattern, letter-only names,
  a valid program and a year level of its list), \<open>generateStaticIdentity\<close> gives the
  full name as the first name, one space and the last name, both names as they were
  typed: the lengths add up, so nothing is collapsed.
\<close>

theorem fullName_of_well_formed:
  assumes "well_formed fd"
  shows "fullName (generateStaticIdentity env fd) = firstName fd @ str '' '' @ lastName fd \<and>
         length (fullName (generateStaticIdentity env fd)) =
           length (firstName fd) + 1 + length (lastName fd)"
  by (simp add: generateStaticIdentity_def str_def)

theorem fullName_of_well_formed_witness:
  "well_formed (formData (changes example_edits (initial Map.empty))) \<and>
   fullName (generateStaticIdentity example_browser
      (formData (changes example_edits (initial Map.empty)))) = str ''Ana Cruz''"
  using fullName_of_well_formed [OF example_well_formed, of example_browser Map.empty]
    example_well_formed [of Map.empty]
  by (simp add: example_formData str_def)

text \<open>
  C3. A submission succeeds exactly when the five fields are filled, no entry of
  \<open>fieldErrors\<close> is a message and \<open>setItem\<close> does not throw; it then stores
  \<open>JSON.stringify\<close> of the identity record under the key \<open>student_\<close> followed by the
  student number, and changes no other key. For the specification's example, typed into
  an empty form over an empty storage (either version of the form), the only key is
  \<open>student_2023-00011-TG-0\<close> and the stored record has the full name \<open>Ana Cruz\<close>.
\<close>

theorem handleSubmit_persists:
  "(fst (handleSubmit env st) = None \<longleftrightarrow>
      studentNumber (formData st) \<noteq> [] \<and> lastName (formData st) \<noteq> [] \<and>
      firstName (formData st) \<noteq> [] \<and> program (formData st) \<noteq> [] \<and>
      yearLevel (formData st) \<noteq> [] \<and>
      list_all (\<lambda>e. e = []) (map snd (fieldErrors st)) \<and> \<not> setItem_throws env) \<and>
   (fst (handleSubmit env st) = None \<longrightarrow>
      localStorage (snd (handleSubmit env st)) =
        (localStorage st)
          (str ''student_'' @ studentNumber (formData st) \<mapsto>
             JSON_stringify (generateStaticIdentity env (formData st))) \<and>
      registrationData (snd (handleSubmit env st)) =
        Some (generateStaticIdentity env (formData st))) \<and>
   (\<not> setItem_throws env \<longrightarrow>
      (let ex = changes example_edits (initial Map.empty);
           ident = generateStaticIdentity env (formData ex)
       in changes_v0 example_edits (initial Map.empty) = ex \<and>
          fst (handleSubmit env ex) = None \<and>
          localStorage (snd (handleSubmit env ex)) =
            [str ''student_2023-00011-TG-0'' \<mapsto> JSON_stringify ident] \<and>
          registrationData (snd (handleSubmit env ex)) = Some ident \<and>
          fullName ident = str ''Ana Cruz''))"
proof -
  have ex: "list_ex (\<lambda>e. e \<noteq> []) xs \<longleftrightarrow> \<not> list_all (\<lambda>e. e = []) xs" for xs :: "jsstring list"
    by (auto simp: list_ex_iff list_all_iff)
  have a: "fst (handleSubmit env st) = None \<longleftrightarrow>
      studentNumber (formData st) \<noteq> [] \<and> lastName (formData st) \<noteq> [] \<and>
      firstName (formData st) \<noteq> [] \<and> program (formData st) \<noteq> [] \<and>
      yearLevel (formData st) \<noteq> [] \<and>
      list_all (\<lambda>e. e = []) (map snd (fieldErrors st)) \<and> \<not> setItem_throws env" for st
    by (simp add: handleSubmit_def Let_def ex)
  have b: "localStorage (snd (handleSubmit env st)) =
        (localStorage st)
          (str ''student_'' @ studentNumber (formData st) \<mapsto>
             JSON_stringify (generateStaticIdentity env (formData st))) \<and>
      registrationData (snd (handleSubmit env st)) =
        Some (generateStaticIdentity env (formData st))"
    if "fst (handleSubmit env st) = None" for st
    using that by (simp add: handleSubmit_def Let_def split: if_splits)
  define ex :: component where "ex = changes example_edits (initial Map.empty)"
  have c: "fst (handleSubmit env ex) = None" if "\<not> setItem_throws env"
    using that unfolding a by (simp add: ex_def example_formData example_fieldErrors)
  have d: "str ''student_'' @ studentNumber (formData ex) = str ''student_2023-00011-TG-0''"
    by (simp add: ex_def example_formData str_def)
  have e: "fullName (generateStaticIdentity env (formData ex)) = str ''Ana Cruz''"
    by (simp add: generateStaticIdentity_fullName ex_def example_formData str_def)
  have f: "localStorage ex = Map.empty" by (simp add: ex_def example_localStorage)
  have g: "changes_v0 example_edits (initial Map.empty) = ex"
    by (simp add: ex_def example_changes_v0)
  show ?thesis
    using a [of st] b [of st] b [of ex] c d e f g
    by (simp add: ex_def [symmetric] Let_def)
qed

theorem handleSubmit_persists_witness:
  "\<not> setItem_throws example_browser \<and>
   fst (handleSubmit example_browser (changes example_edits (initial Map.empty))) = None \<and>
   localStorage (snd (handleSubmit example_browser (changes example_edits (initial Map.empty))))
     (str ''student_2023-00011-TG-0'') =
     Some (JSON_stringify (generateStaticIdentity example_browser
       (formData (changes example_edits (initial Map.empty))))) \<and>
   fullName (generateStaticIdentity example_browser
       (formData (changes example_edits (initial Map.empty)))) = str ''Ana Cruz''"
proof -
  have t: "\<not> setItem_throws example_browser" by (simp add: example_browser_def)
  show ?thesis
    using handleSubmit_persists [of example_browser "initial Map.empty"] t
    by (simp add: Let_def)
qed

text \<open>
  C4. \<open>calculateProgress\<close> of RegistrationForm.js, the later version of the form that
  the specification describes, on JavaScript's doubles: it is 0 when the five fields are
  empty and 100 when the five are filled; with no program chosen it is
  \<open>baseFilled / 4 * 100\<close>, whatever the year level holds; with a program chosen the
  year level counts and the denominator is 5; and it lies between 0 and 100. Every
  rounding in it is exact, so the double is the rational written here.
\<close>

theorem calculateProgress_spec:
  "(studentNumber fd = [] \<and> lastName fd = [] \<and> firstName fd = [] \<and> program fd = [] \<and>
      yearLevel fd = [] \<longrightarrow> calculateProgress fd = 0) \<and>
   (studentNumber fd \<noteq> [] \<and> lastName fd \<noteq> [] \<and> firstName fd \<noteq> [] \<and> program fd \<noteq> [] \<and>
      yearLevel fd \<noteq> [] \<longrightarrow> calculateProgress fd = 100) \<and>
   (program fd = [] \<longrightarrow>
      calculateProgress fd = of_nat (baseFilled fd) / 4 * 100 \<and>
      calculateProgress (fd\<lparr>yearLevel := y\<rparr>) = calculateProgress fd) \<and>
   (program fd \<noteq> [] \<longrightarrow>
      calculateProgress fd =
        of_nat (baseFilled fd + (if yearLevel fd \<noteq> [] then 1 else 0)) / 5 * 100) \<and>
   0 \<le> calculateProgress fd \<and> calculateProgress fd \<le> 100"
proof -
  have le: "calculateProgress fd \<le> 100"
  proof (cases "program fd \<noteq> []")
    case True
    have "baseFilled fd + (if yearLevel fd \<noteq> [] then 1 else 0) \<le> 5"
      using baseFilled_le [of fd] by simp
    then have "(of_nat (baseFilled fd + (if yearLevel fd \<noteq> [] then 1 else 0)) :: rat) \<le> of_nat 5"
      by (simp only: of_nat_le_iff)
    then show ?thesis using True by (simp add: calculateProgress_exact del: of_nat_add of_nat_Suc)
  next
    case False
    have "(of_nat (baseFilled fd) :: rat) \<le> of_nat 4"
      using baseFilled_le [of fd] by (simp only: of_nat_le_iff)
    then show ?thesis using False by (simp add: calculateProgress_exact)
  qed
  have y: "baseFilled (fd\<lparr>yearLevel := y\<rparr>) = baseFilled fd"
    by (simp add: baseFilled_def)
  show ?thesis
    using le by (auto simp: calculateProgress_exact y baseFilled_def)
qed

text \<open>
  The empty form, the example, the example's first two values (no program) and the
  example without its year level.
\<close>

theorem calculateProgress_spec_witness:
  "calculateProgress (formData (initial Map.empty)) = 0 \<and>
   calculateProgress (formData (changes example_edits (initial Map.empty))) = 100 \<and>
   program (formData (changes (take 2 example_edits) (initial Map.empty))) = [] \<and>
   calculateProgress (formData (changes (take 2 example_edits) (initial Map.empty))) = 50 \<and>
   program (formData (changes (butlast example_edits) (initial Map.empty))) \<noteq> [] \<and>
   calculateProgress (formData (changes (butlast example_edits) (initial Map.empty))) = 80"
proof -
  have a: "formData (initial Map.empty) =
      \<lparr>studentNumber = [], lastName = [], firstName = [], program = [], yearLevel = []\<rparr>"
    by (simp add: initial_def)
  have b: "formData (changes (take 2 example_edits) (initial Map.empty)) =
      \<lparr>studentNumber = str ''2023-00011-TG-0'', lastName = [], firstName = str ''Ana'',
       program = [], yearLevel = []\<rparr>"
    by (simp add: example_edits_def initial_def handleInputChange_def set_field_def Let_def)
  have c: "formData (changes (butlast example_edits) (initial Map.empty)) =
      \<lparr>studentNumber = str ''2023-00011-TG-0'', lastName = str ''Cruz'', firstName = str ''Ana'',
       program = str ''Diploma in Information Technology'', yearLevel = []\<rparr>"
    by (simp add: example_edits_def initial_def handleInputChange_def set_field_def Let_def)
  show ?thesis
    using calculateProgress_spec [of "formData (initial Map.empty)"]
      calculateProgress_spec [of "formData (changes example_edits (initial Map.empty))"]
      calculateProgress_spec [of "formData (changes (take 2 example_edits) (initial Map.empty))"]
      calculateProgress_spec [of "formData (changes (butlast example_edits) (initial Map.empty))"]
    by (simp add: a b c example_formData baseFilled_def)
qed

text \<open>
  C5. Under the strict rule of RegistrationForm.js, a non-empty student number has an
  empty error exactly when it has the fixed format (four digits, hyphen, five digits,
  hyphen, \<open>TG\<close>, hyphen, \<open>0\<close>). \<open>abc\<close> gets a non-empty error, and once it is typed
  into the student number, in any state, a submission is blocked whatever is typed into
  the other fields afterwards: the state stays as it is and an alert is raised.
\<close>

theorem strict_student_number:
  assumes "list_all (\<lambda>(n, v). n \<noteq> str ''studentNumber'') edits"
  shows "(v \<noteq> [] \<longrightarrow>
           (validateField (str ''studentNumber'') v = [] \<longleftrightarrow> strict_format v)) \<and>
         validateField (str ''studentNumber'') (str ''abc'') \<noteq> [] \<and>
         (let st1 = changes edits (handleInputChange (str ''studentNumber'') (str ''abc'') st)
          in studentNumber (formData st1) = str ''abc'' \<and>
             map_of (fieldErrors st1) (str ''studentNumber'') =
               Some (validateField (str ''studentNumber'') (str ''abc'')) \<and>
             fst (handleSubmit env st1) \<noteq> None \<and>
             snd (handleSubmit env st1) = st1)"
proof -
  define st0 where "st0 = handleInputChange (str ''studentNumber'') (str ''abc'') st"
  define st1 where "st1 = changes edits st0"
  define err where "err = validateField (str ''studentNumber'') (str ''abc'')"
  have err: "err \<noteq> []"
    by (simp add: err_def validateField_def abc_rejected)
  have "studentNumber (formData st0) = str ''abc''"
    by (simp add: st0_def handleInputChange_def set_field_def Let_def)
  moreover have "map_of (fieldErrors st0) (str ''studentNumber'') = Some err"
    by (simp add: st0_def err_def handleInputChange_def Let_def update_conv')
  ultimately have inv: "studentNumber (formData st1) = str ''abc'' \<and>
      map_of (fieldErrors st1) (str ''studentNumber'') = Some err"
    unfolding st1_def using assms by (intro changes_keep_studentNumber)
  then have "(str ''studentNumber'', err) \<in> set (fieldErrors st1)"
    by (simp add: map_of_SomeD)
  then have "err \<in> set (map snd (fieldErrors st1))" by force
  then have "list_ex (\<lambda>e. e \<noteq> []) (map snd (fieldErrors st1))"
    using err unfolding list_ex_iff by blast
  then have "fst (handleSubmit env st1) \<noteq> None \<and> snd (handleSubmit env st1) = st1"
    by (simp add: handleSubmit_def Let_def)
  then show ?thesis
    using inv err
    by (simp add: st1_def [symmetric] st0_def [symmetric] err_def [symmetric]
        validateField_studentNumber Let_def)
qed

text \<open>
  The example's student number passes; \<open>abc\<close> followed by the example's other four
  values does not submit.
\<close>

theorem strict_student_number_witness:
  "list_all (\<lambda>(n, v). n \<noteq> str ''studentNumber'') (tl example_edits) \<and>
   str ''2023-00011-TG-0'' \<noteq> [] \<and>
   validateField (str ''studentNumber'') (str ''2023-00011-TG-0'') = [] \<and>
   fst (handleSubmit example_browser
          (changes (tl example_edits)
             (handleInputChange (str ''studentNumber'') (str ''abc'') (initial Map.empty)))) \<noteq> None"
proof -
  have a: "list_all (\<lambda>(n, v). n \<noteq> str ''studentNumber'') (tl example_edits)"
    by (simp add: example_edits_def)
  have b: "strict_format (str ''2023-00011-TG-0'')"
    using example_studentNumber_matches by (simp add: studentIdPattern_strict)
  show ?thesis
    using strict_student_number [OF a, of "str ''2023-00011-TG-0''" "initial Map.empty"
        example_browser] a b
    by (simp add: Let_def)
qed

text \<open>
  C6. Whatever the state and the new value, an edit of the field \<open>program\<close> leaves
  \<open>yearLevel\<close> empty (and \<open>program\<close> at the new value), in both versions of the form.
\<close>

theorem program_change_resets_yearLevel:
  "yearLevel (formData (handleInputChange (str ''program'') v st)) = [] \<and>
   program (formData (handleInputChange (str ''program'') v st)) = v \<and>
   yearLevel (formData (handleInputChange_v0 (str ''program'') v st)) = [] \<and>
   program (formData (handleInputChange_v0 (str ''program'') v st)) = v"
  by (simp add: handleInputChange_def handleInputChange_v0_def set_field_def Let_def)

text \<open>
  C7. For a non-empty value, the error of \<open>firstName\<close> and of \<open>lastName\<close> is empty
  exactly when every code unit is an ASCII letter or a white space character of \<open>\s\<close>;
  for the empty value the error of any field is empty. Both versions of the form.
\<close>

theorem name_validation:
  "(v \<noteq> [] \<longrightarrow>
      (validateField (str ''firstName'') v = [] \<longleftrightarrow> list_all (\<lambda>c. letter c \<or> whitespace c) v) \<and>
      (validateField (str ''lastName'') v = [] \<longleftrightarrow> list_all (\<lambda>c. letter c \<or> whitespace c) v) \<and>
      (validateField_v0 (str ''firstName'') v = [] \<longleftrightarrow> list_all (\<lambda>c. letter c \<or> whitespace c) v) \<and>
      (validateField_v0 (str ''lastName'') v = [] \<longleftrightarrow> list_all (\<lambda>c. letter c \<or> whitespace c) v)) \<and>
   validateField name [] = [] \<and> validateField_v0 name [] = []"
  by (simp add: validateField_name) (simp add: validateField_def validateField_v0_def)

theorem name_validation_witness:
  "str ''Ana Maria'' \<noteq> [] \<and> validateField (str ''firstName'') (str ''Ana Maria'') = [] \<and>
   str ''Ana1'' \<noteq> [] \<and> validateField (str ''lastName'') (str ''Ana1'') \<noteq> []"
proof -
  have a: "list_all (\<lambda>c. letter c \<or> whitespace c) (str ''Ana Maria'')"
    by (simp add: str_def letter_def whitespace_def in_range_def)
  have b: "\<not> list_all (\<lambda>c. letter c \<or> whitespace c) (str ''Ana1'')"
    by (simp add: str_def letter_def whitespace_def in_range_def)
  show ?thesis
    using name_validation [of "str ''Ana Maria''" "str ''firstName''"]
      name_validation [of "str ''Ana1''" "str ''lastName''"] a b
    by simp
qed

text \<open>
  C8. An edit of the field \<open>n\<close> sets the error of \<open>n\<close> to what \<open>validateField\<close> says
  of the new value and changes no other entry of \<open>fieldErrors\<close>: as a map it is the old
  one updated at \<open>n\<close>, and the entries of the other fields are the same list as before.
  Both versions of the form.
\<close>

theorem fieldErrors_frame:
  "map_of (fieldErrors (handleInputChange n v st)) =
     (map_of (fieldErrors st))(n \<mapsto> validateField n v) \<and>
   filter (\<lambda>p. fst p \<noteq> n) (fieldErrors (handleInputChange n v st)) =
     filter (\<lambda>p. fst p \<noteq> n) (fieldErrors st) \<and>
   map_of (fieldErrors (handleInputChange_v0 n v st)) =
     (map_of (fieldErrors st))(n \<mapsto> validateField_v0 n v) \<and>
   filter (\<lambda>p. fst p \<noteq> n) (fieldErrors (handleInputChange_v0 n v st)) =
     filter (\<lambda>p. fst p \<noteq> n) (fieldErrors st)"
  by (simp add: handleInputChange_def handleInputChange_v0_def Let_def update_conv'
      filter_update_other)

text \<open>
  C9. The two student-number rules are not the same function: the non-empty \<open>abc\<close>
  passes the letters, digits and hyphens rule of the one version and fails the
  \<open>YYYY-NNNNN-TG-0\<close> rule of the other.
\<close>

theorem validators_differ:
  "str ''abc'' \<noteq> [] \<and>
   validateField_v0 (str ''studentNumber'') (str ''abc'') = [] \<and>
   validateField (str ''studentNumber'') (str ''abc'') \<noteq> [] \<and>
   validateField \<noteq> validateField_v0"
proof -
  have a: "validateField_v0 (str ''studentNumber'') (str ''abc'') = []"
    by (simp add: validateField_v0_def abc_accepted_v0)
  have b: "validateField (str ''studentNumber'') (str ''abc'') \<noteq> []"
    by (simp add: validateField_def abc_rejected)
  have "validateField \<noteq> validateField_v0"
  proof
    assume "validateField = validateField_v0"
    then have "validateField (str ''studentNumber'') (str ''abc'') =
               validateField_v0 (str ''studentNumber'') (str ''abc'')" by simp
    with a b show False by simp
  qed
  with a b show ?thesis by simp
qed

text \<open>
  C10. A non-empty name of white space only passes \<open>validateField\<close> in both versions.
  Typed as the first or the last name into a form whose other four fields are filled
  and carry no error (an object has each key once), it is submitted when \<open>setItem\<close>
  does not throw: the record is stored under the student number's key and its full name
  holds the white space as typed.
\<close>

theorem whitespace_only_name:
  assumes "w \<noteq> []" "list_all whitespace w"
    and "name = str ''firstName'' \<and> lastName (formData st) \<noteq> [] \<or>
         name = str ''lastName'' \<and> firstName (formData st) \<noteq> []"
    and "studentNumber (formData st) \<noteq> []" "program (formData st) \<noteq> []"
      "yearLevel (formData st) \<noteq> []"
    and "distinct (map fst (fieldErrors st))"
    and "list_all (\<lambda>(k, e). k = name \<or> e = []) (fieldErrors st)"
    and "\<not> setItem_throws env"
  shows "validateField name w = [] \<and> validateField_v0 name w = [] \<and>
         handleInputChange_v0 name w st = handleInputChange name w st \<and>
         (let st1 = handleInputChange name w st;
              ident = generateStaticIdentity env (formData st1)
          in fst (handleSubmit env st1) = None \<and>
             localStorage (snd (handleSubmit env st1))
               (str ''student_'' @ studentNumber (formData st)) = Some (JSON_stringify ident) \<and>
             registrationData (snd (handleSubmit env st1)) = Some ident \<and>
             fullName ident =
               (if name = str ''firstName'' then w @ str '' '' @ lastName (formData st)
                else firstName (formData st) @ str '' '' @ w))"
proof -
  have n: "name = str ''firstName'' \<or> name = str ''lastName''" using assms(3) by blast
  have "list_all (\<lambda>c. letter c \<or> whitespace c) w"
    using assms(2) by (simp add: list_all_iff)
  then have v: "validateField name w = []" "validateField_v0 name w = []"
    using n by (simp_all add: validateField_name)
  have np: "name \<noteq> str ''program''" using n by auto
  define st1 where "st1 = handleInputChange name w st"
  have e: "handleInputChange_v0 name w st = st1"
    by (simp add: st1_def handleInputChange_def handleInputChange_v0_def v)
  have fe: "fieldErrors st1 = AList.update name [] (fieldErrors st)"
    by (simp add: st1_def handleInputChange_def v np Let_def)
  have fd: "formData st1 = set_field name w (formData st)"
    by (simp add: st1_def handleInputChange_def v np Let_def)
  have ls: "localStorage st1 = localStorage st"
    by (simp add: st1_def handleInputChange_def v np Let_def)
  have ne: "\<not> list_ex (\<lambda>e. e \<noteq> []) (map snd (fieldErrors st1))"
    unfolding fe using assms(7,8) by (rule no_errors_after_update)
  have filled: "studentNumber (formData st1) \<noteq> []" "lastName (formData st1) \<noteq> []"
    "firstName (formData st1) \<noteq> []" "program (formData st1) \<noteq> []"
    "yearLevel (formData st1) \<noteq> []"
    using assms(1,3-6) n by (auto simp: fd set_field_name)
  have sn: "studentNumber (formData st1) = studentNumber (formData st)"
    using n by (simp add: fd set_field_name)
  have ok: "handleSubmit env st1 =
      (None, st1\<lparr>localStorage :=
                 (localStorage st1)
                   (str ''student_'' @ studentNumber (formData st1) \<mapsto>
                      JSON_stringify (generateStaticIdentity env (formData st1))),
               registrationData := Some (generateStaticIdentity env (formData st1)),
               isRegistered := True, showModal := True, isProcessing := False\<rparr>)"
    using filled ne assms(9) by (simp add: handleSubmit_def Let_def)
  have fn: "fullName (generateStaticIdentity env (formData st1)) =
      (if name = str ''firstName'' then w @ str '' '' @ lastName (formData st)
       else firstName (formData st) @ str '' '' @ w)"
    using n by (auto simp: generateStaticIdentity_fullName fd set_field_name)
  show ?thesis
    using v e fn by (simp add: st1_def [symmetric] ok sn Let_def)
qed

text \<open>A single space as the first name of the example: the full name is two spaces and \<open>Cruz\<close>.\<close>

theorem whitespace_only_name_witness:
  "str '' '' \<noteq> [] \<and> list_all whitespace (str '' '') \<and>
   validateField (str ''firstName'') (str '' '') = [] \<and>
   fst (handleSubmit example_browser
      (handleInputChange (str ''firstName'') (str '' '')
         (changes example_edits (initial Map.empty)))) = None \<and>
   fullName (generateStaticIdentity example_browser
      (formData (handleInputChange (str ''firstName'') (str '' '')
         (changes example_edits (initial Map.empty))))) = str ''  Cruz''"
proof -
  have a: "list_all whitespace (str '' '')"
    by (simp add: str_def whitespace_def)
  have b: "distinct (map fst (fieldErrors (changes example_edits (initial Map.empty))))"
    by (simp add: example_fieldErrors)
  have c: "list_all (\<lambda>(k, e). k = str ''firstName'' \<or> e = [])
      (fieldErrors (changes example_edits (initial Map.empty)))"
    by (simp add: example_fieldErrors)
  have d: "\<not> setItem_throws example_browser" by (simp add: example_browser_def)
  show ?thesis
    using whitespace_only_name [of "str '' ''" "str ''firstName''"
        "changes example_edits (initial Map.empty)" example_browser] a b c d
    by (simp add: example_formData Let_def str_def)
qed

end
